theory Spec2Isabelle
  imports Complex_Main
begin

section \<open>JavaScript values that reach the client\<close>

text \<open>
  A JavaScript \<open>number\<close> is an IEEE double. The client never computes with numbers: it
  only compares them with \<open>0\<close>, \<open>1\<close> and \<open>-1\<close> and prints them. A finite double is
  modelled by its exact real value (negative zero is \<open>Finite 0\<close>: it compares and prints
  as zero), the three special doubles are constructors of their own.
\<close>

datatype number = Finite real | PosInfinity | NegInfinity | NaN

text \<open>The relational operator \<open>a < b\<close> on numbers: false as soon as one side is NaN.\<close>

fun js_less :: "number \<Rightarrow> number \<Rightarrow> bool" where
  "js_less NaN b = False"
| "js_less a NaN = False"
| "js_less (Finite a) (Finite b) = (a < b)"
| "js_less (Finite a) PosInfinity = True"
| "js_less (Finite a) NegInfinity = False"
| "js_less PosInfinity b = False"
| "js_less NegInfinity (Finite b) = True"
| "js_less NegInfinity PosInfinity = True"
| "js_less NegInfinity NegInfinity = False"

text \<open>
  What \<open>JSON.parse\<close> and a decoded HTTP body can hold (the type \<open>any\<close> of the source),
  and \<open>undefined\<close>, the value of a property that is not there. An object is the list of
  its own properties, each key once.
\<close>

datatype jsvalue =
    JUndefined
  | JNull
  | JBoolean bool
  | JNumber number
  | JString string
  | JArray "jsvalue list"
  | JObject "(string \<times> jsvalue) list"

text \<open>Everything the client can throw, and what it can see thrown by what it calls.\<close>

datatype error =
    EnginePathNotFoundError
  | ServerNotAccessibleError nat
  | SonarNotEnabledError
  | ServerNotReadyError
  | ServerNotRunningError
  | WebServerAddressNotFoundError
  | ChannelNotFoundError string
  | SliderNotFoundError string
  | InvalidVolumeError number
  | InvalidMixVolumeError number
  | AxiosError "nat option"
  | TypeError

text \<open>
  \<open>AxiosError r\<close> is the transport's own error: \<open>r\<close> is the status of \<open>error.response\<close>
  when the error carries a response, \<open>None\<close> when it does not (connection refused,
  timeout). \<open>TypeError\<close> is the language's error for reading a property of \<open>null\<close> or
  \<open>undefined\<close> and for an object that cannot be converted to a string.
\<close>

text \<open>
  Property access \<open>v.k\<close>, for the property names this client reads
  (\<open>ggEncryptedAddress\<close>, \<open>subApps\<close>, \<open>sonar\<close>, \<open>isEnabled\<close>, \<open>isReady\<close>, \<open>isRunning\<close>,
  \<open>metadata\<close>, \<open>webServerAddress\<close>): none of them is defined by a prototype, so a value
  that is not an object with that own property gives \<open>undefined\<close>.
\<close>

fun Get :: "jsvalue \<Rightarrow> string \<Rightarrow> error + jsvalue" where
  "Get JUndefined k = Inl TypeError"
| "Get JNull k = Inl TypeError"
| "Get (JObject kvs) k = Inr (case map_of kvs k of None \<Rightarrow> JUndefined | Some v \<Rightarrow> v)"
| "Get v k = Inr JUndefined"

text \<open>The truth value of \<open>v\<close> in \<open>!v\<close> and \<open>a || b\<close>.\<close>

fun truthy :: "jsvalue \<Rightarrow> bool" where
  "truthy JUndefined = False"
| "truthy JNull = False"
| "truthy (JBoolean b) = b"
| "truthy (JNumber (Finite r)) = (r \<noteq> 0)"
| "truthy (JNumber NaN) = False"
| "truthy (JNumber n) = True"
| "truthy (JString s) = (s \<noteq> [])"
| "truthy (JArray xs) = True"
| "truthy (JObject kvs) = True"

text \<open>
  The text of a number in a template literal. The digits of a finite double are the
  runtime's (\<open>Number::toString\<close>), passed in as \<open>digits\<close>.
\<close>

fun Number_toString :: "(real \<Rightarrow> string) \<Rightarrow> number \<Rightarrow> string" where
  "Number_toString digits (Finite r) = digits r"
| "Number_toString digits PosInfinity = ''Infinity''"
| "Number_toString digits NegInfinity = ''-Infinity''"
| "Number_toString digits NaN = ''NaN''"

text \<open>
  \<open>${v}\<close> in a template literal. An array prints its elements separated by commas,
  \<open>null\<close> and \<open>undefined\<close> elements as nothing. An object prints as \<open>[object Object]\<close>,
  unless it has an own property \<open>toString\<close>: that property, coming from decoded JSON, is
  not callable, \<open>valueOf\<close> gives the object back, and the conversion throws.
\<close>

fun ToString :: "(real \<Rightarrow> string) \<Rightarrow> jsvalue \<Rightarrow> error + string"
  and join :: "(real \<Rightarrow> string) \<Rightarrow> jsvalue list \<Rightarrow> error + string" where
  "ToString digits JUndefined = Inr ''undefined''"
| "ToString digits JNull = Inr ''null''"
| "ToString digits (JBoolean b) = Inr (if b then ''true'' else ''false'')"
| "ToString digits (JNumber n) = Inr (Number_toString digits n)"
| "ToString digits (JString s) = Inr s"
| "ToString digits (JArray xs) = join digits xs"
| "ToString digits (JObject kvs) =
     (if ''toString'' \<in> set (map fst kvs) then Inl TypeError else Inr ''[object Object]'')"
| "join digits [] = Inr ''''"
| "join digits (x # xs) =
     (case (if x = JUndefined \<or> x = JNull then Inr '''' else ToString digits x) of
        Inl e \<Rightarrow> Inl e
      | Inr a \<Rightarrow>
          if xs = [] then Inr a
          else (case join digits xs of Inl e \<Rightarrow> Inl e | Inr b \<Rightarrow> Inr (a @ '','' @ b)))"

text \<open>\<open>JSON.stringify\<close> on a number and on a boolean.\<close>

fun JSON_stringify_number :: "(real \<Rightarrow> string) \<Rightarrow> number \<Rightarrow> string" where
  "JSON_stringify_number digits (Finite r) = digits r"
| "JSON_stringify_number digits n = ''null''"

definition JSON_stringify_boolean :: "bool \<Rightarrow> string" where
  "JSON_stringify_boolean b = (if b then ''true'' else ''false'')"

section \<open>What the client runs on\<close>

datatype verb = GET | PUT

text \<open>
  What \<open>await this.httpClient.get(url)\<close> and \<open>put(url)\<close> come back with: a response
  (status and decoded body), or the transport's error, with the status of its response
  when it has one. \<open>Rejected None\<close> is every rejection that has no response.
\<close>

datatype reply = Resolved nat jsvalue | Rejected "nat option"

type_synonym requests = "(verb \<times> string) list"

text \<open>
  The collaborators of the client: the operating system, the file system, \<open>JSON.parse\<close>,
  the runtime's printing of a finite number, and the HTTP transport. The transport is
  any function of the requests sent before and of the request sent now: a server with
  state is such a function, and nothing is assumed of it.
\<close>

record runtime =
  platform :: string
  ProgramData :: "string option"
  homedir :: string
  path_join :: "string list \<Rightarrow> string"
  existsSync :: "string \<Rightarrow> bool"
  readFileSync :: "string \<Rightarrow> string option"
  JSON_parse :: "string \<Rightarrow> jsvalue option"
  digits :: "real \<Rightarrow> string"
  transport :: "requests \<Rightarrow> verb \<Rightarrow> string \<Rightarrow> reply"

section \<open>The client\<close>

definition CHANNEL_NAMES :: "string list" where
  "CHANNEL_NAMES = [''master'', ''game'', ''chatRender'', ''media'', ''aux'', ''chatCapture'']"

definition STREAMER_SLIDER_NAMES :: "string list" where
  "STREAMER_SLIDER_NAMES = [''streaming'', ''monitoring'']"

definition VOLUME_PATH :: string where
  "VOLUME_PATH = ''/volumeSettings/classic''"

definition STREAMER_VOLUME_PATH :: string where
  "STREAMER_VOLUME_PATH = ''/volumeSettings/streamer''"

record SonarOptions =
  opt_appDataPath :: "string option"
  opt_streamerMode :: "bool option"

text \<open>The fields of the class, \<open>_streamerMode\<close> as \<open>priv_streamerMode\<close>.\<close>

record Sonar =
  appDataPath :: string
  baseUrl :: string
  webServerAddress :: jsvalue
  volumePath :: string
  priv_streamerMode :: bool

definition getDefaultAppDataPath :: "runtime \<Rightarrow> string" where
  "getDefaultAppDataPath rt =
     (if platform rt = ''win32'' then
        path_join rt
          [(case ProgramData rt of
              None \<Rightarrow> ''C:'' @ [CHR 0x5C] @ ''ProgramData''
            | Some p \<Rightarrow> if p \<noteq> [] then p else ''C:'' @ [CHR 0x5C] @ ''ProgramData''),
           ''SteelSeries'', ''SteelSeries Engine 3'', ''coreProps.json'']
      else if platform rt = ''darwin'' then
        path_join rt
          [homedir rt, ''Library'', ''Application Support'', ''SteelSeries Engine 3'',
           ''coreProps.json'']
      else
        path_join rt
          [homedir rt, ''.local'', ''share'', ''SteelSeries Engine 3'', ''coreProps.json''])"

text \<open>The private constructor.\<close>

definition new_Sonar :: "runtime \<Rightarrow> SonarOptions \<Rightarrow> Sonar" where
  "new_Sonar rt options =
     (let flag = (case opt_streamerMode options of None \<Rightarrow> False | Some b \<Rightarrow> b) in
      \<lparr> appDataPath =
          (case opt_appDataPath options of
             None \<Rightarrow> getDefaultAppDataPath rt
           | Some p \<Rightarrow> if p \<noteq> [] then p else getDefaultAppDataPath rt),
        baseUrl = '''',
        webServerAddress = JString '''',
        volumePath = (if flag then STREAMER_VOLUME_PATH else VOLUME_PATH),
        priv_streamerMode = flag \<rparr>)"

text \<open>The getter \<open>streamerMode\<close>.\<close>

definition streamerMode :: "Sonar \<Rightarrow> bool" where
  "streamerMode s = priv_streamerMode s"

text \<open>
  The \<open>catch\<close> clause every method ends with: a transport error that has a response
  becomes \<open>ServerNotAccessibleError\<close> with its status, any other error is thrown again.
\<close>

fun rethrow :: "error \<Rightarrow> error" where
  "rethrow (AxiosError (Some st)) = ServerNotAccessibleError st"
| "rethrow e = e"

text \<open>
  The block every method repeats around its one request:
  \<^verbatim>\<open>try { const response = await this.httpClient.get(url);   // or put(url)
        if (response.status !== 200) throw new ServerNotAccessibleError(response.status);
        ... response.data ...
  } catch (error) {
        if (axios.isAxiosError(error) && error.response)
          throw new ServerNotAccessibleError(error.response.status);
        throw error; }\<close>
  It gives the decoded body or the error thrown, and records the request as sent.
\<close>

definition send :: "runtime \<Rightarrow> verb \<Rightarrow> string \<Rightarrow> requests \<Rightarrow> (error + jsvalue) \<times> requests" where
  "send rt m url sent =
     ((case transport rt sent m url of
         Rejected r \<Rightarrow> Inl (rethrow (AxiosError r))
       | Resolved status body \<Rightarrow>
           if status \<noteq> 200 then Inl (rethrow (ServerNotAccessibleError status))
           else Inr body),
      sent @ [(m, url)])"

subsection \<open>Mode\<close>

definition isStreamerMode :: "runtime \<Rightarrow> Sonar \<Rightarrow> requests \<Rightarrow> (error + bool) \<times> requests" where
  "isStreamerMode rt s sent =
     (case ToString (digits rt) (webServerAddress s) of
        Inl e \<Rightarrow> (Inl (rethrow e), sent)
      | Inr address \<Rightarrow>
          (case send rt GET (address @ ''/mode/'') sent of
             (Inl e, sent') \<Rightarrow> (Inl e, sent')
           | (Inr body, sent') \<Rightarrow> (Inr (body = JString ''stream''), sent')))"

text \<open>
  \<open>setStreamerMode\<close> changes the two mode fields only after a response with status 200:
  when it throws, the client is as it was.
\<close>

definition setStreamerMode ::
  "runtime \<Rightarrow> Sonar \<Rightarrow> bool \<Rightarrow> requests \<Rightarrow> (error + bool) \<times> Sonar \<times> requests" where
  "setStreamerMode rt s streamerMode_arg sent =
     (let mode = (if streamerMode_arg then ''stream'' else ''classic'') in
      case ToString (digits rt) (webServerAddress s) of
        Inl e \<Rightarrow> (Inl e, s, sent)
      | Inr address \<Rightarrow>
          (case send rt PUT (address @ ''/mode/'' @ mode) sent of
             (Inl e, sent') \<Rightarrow> (Inl e, s, sent')
           | (Inr body, sent') \<Rightarrow>
               (let flag = (body = JString ''stream'') in
                (Inr flag,
                 s\<lparr>priv_streamerMode := flag,
                   volumePath := (if flag then STREAMER_VOLUME_PATH else VOLUME_PATH)\<rparr>,
                 sent'))))"

subsection \<open>Address resolution\<close>

text \<open>
  \<open>loadBaseUrl\<close>: whatever is thrown between reading the file and building the URL is
  caught and replaced by \<open>EnginePathNotFoundError\<close>.
\<close>

definition loadBaseUrl :: "runtime \<Rightarrow> Sonar \<Rightarrow> error + Sonar" where
  "loadBaseUrl rt s =
     (if \<not> existsSync rt (appDataPath s) then Inl EnginePathNotFoundError
      else
        (case readFileSync rt (appDataPath s) of
           None \<Rightarrow> Inl EnginePathNotFoundError
         | Some fileContent \<Rightarrow>
             (case JSON_parse rt fileContent of
                None \<Rightarrow> Inl EnginePathNotFoundError
              | Some commonAppData \<Rightarrow>
                  (case Get commonAppData ''ggEncryptedAddress'' of
                     Inl e \<Rightarrow> Inl EnginePathNotFoundError
                   | Inr ggEncryptedAddress \<Rightarrow>
                       (case ToString (digits rt) ggEncryptedAddress of
                          Inl e \<Rightarrow> Inl EnginePathNotFoundError
                        | Inr address \<Rightarrow> Inr (s\<lparr>baseUrl := ''https://'' @ address\<rparr>))))))"

definition and_then :: "error + 'a \<Rightarrow> ('a \<Rightarrow> error + 'b) \<Rightarrow> error + 'b" where
  "and_then r f = (case r of Inl e \<Rightarrow> Inl e | Inr v \<Rightarrow> f v)"

text \<open>\<open>appDataJson.subApps.sonar\<close>, read again before each property, as the source does.\<close>

definition subApps_sonar :: "jsvalue \<Rightarrow> error + jsvalue" where
  "subApps_sonar appDataJson = and_then (Get appDataJson ''subApps'') (\<lambda>v. Get v ''sonar'')"

text \<open>
  The statements of \<open>loadServerAddress\<close> after the status check. When the last check
  throws, the address is already written to the client; the factory drops that client, so
  the error alone is returned.
\<close>

definition check_sonar :: "Sonar \<Rightarrow> jsvalue \<Rightarrow> error + Sonar" where
  "check_sonar s appDataJson =
     and_then (and_then (subApps_sonar appDataJson) (\<lambda>v. Get v ''isEnabled'')) (\<lambda>isEnabled.
       if \<not> truthy isEnabled then Inl SonarNotEnabledError
       else
     and_then (and_then (subApps_sonar appDataJson) (\<lambda>v. Get v ''isReady'')) (\<lambda>isReady.
       if \<not> truthy isReady then Inl ServerNotReadyError
       else
     and_then (and_then (subApps_sonar appDataJson) (\<lambda>v. Get v ''isRunning'')) (\<lambda>isRunning.
       if \<not> truthy isRunning then Inl ServerNotRunningError
       else
     and_then (and_then (and_then (subApps_sonar appDataJson) (\<lambda>v. Get v ''metadata''))
                 (\<lambda>v. Get v ''webServerAddress'')) (\<lambda>address.
       if \<not> truthy address \<or> address = JString ''null'' then Inl WebServerAddressNotFoundError
       else Inr (s\<lparr>webServerAddress := address\<rparr>)))))"

definition loadServerAddress :: "runtime \<Rightarrow> Sonar \<Rightarrow> requests \<Rightarrow> (error + Sonar) \<times> requests" where
  "loadServerAddress rt s sent =
     (let url = baseUrl s @ ''/subApps'' in
      ((case transport rt sent GET url of
          Rejected r \<Rightarrow> Inl (rethrow (AxiosError r))
        | Resolved status appDataJson \<Rightarrow>
            if status \<noteq> 200 then Inl (rethrow (ServerNotAccessibleError status))
            else (case check_sonar s appDataJson of
                    Inl e \<Rightarrow> Inl (rethrow e)
                  | Inr s' \<Rightarrow> Inr s')),
       sent @ [(GET, url)]))"

subsection \<open>The factory\<close>

definition create :: "runtime \<Rightarrow> SonarOptions \<Rightarrow> requests \<Rightarrow> (error + Sonar) \<times> requests" where
  "create rt options sent =
     (let sonar = new_Sonar rt options in
      case loadBaseUrl rt sonar of
        Inl e \<Rightarrow> (Inl e, sent)
      | Inr sonar1 \<Rightarrow>
          (case loadServerAddress rt sonar1 sent of
             (Inl e, sent1) \<Rightarrow> (Inl e, sent1)
           | (Inr sonar2, sent1) \<Rightarrow>
               if opt_streamerMode options = None then
                 (case isStreamerMode rt sonar2 sent1 of
                    (Inr flag, sent2) \<Rightarrow>
                      (Inr (if flag
                            then sonar2\<lparr>priv_streamerMode := flag,
                                        volumePath := STREAMER_VOLUME_PATH\<rparr>
                            else sonar2\<lparr>priv_streamerMode := flag\<rparr>),
                       sent2)
                  | (Inl e, sent2) \<Rightarrow> (Inr (sonar2\<lparr>priv_streamerMode := False\<rparr>), sent2))
               else (Inr sonar2, sent1)))"

subsection \<open>Volumes, mute and chat mix\<close>

definition getVolumeData :: "runtime \<Rightarrow> Sonar \<Rightarrow> requests \<Rightarrow> (error + jsvalue) \<times> requests" where
  "getVolumeData rt s sent =
     (case ToString (digits rt) (webServerAddress s) of
        Inl e \<Rightarrow> (Inl e, sent)
      | Inr address \<Rightarrow> send rt GET (address @ volumePath s) sent)"

text \<open>
  \<open>setVolume(channel, volume, streamerSlider = 'streaming')\<close>: a caller that leaves the
  slider out passes \<open>''streaming''\<close>.
\<close>

definition setVolume ::
  "runtime \<Rightarrow> Sonar \<Rightarrow> string \<Rightarrow> number \<Rightarrow> string \<Rightarrow> requests \<Rightarrow> (error + jsvalue) \<times> requests" where
  "setVolume rt s channel volume streamerSlider sent =
     (if channel \<notin> set CHANNEL_NAMES then (Inl (ChannelNotFoundError channel), sent)
      else if priv_streamerMode s \<and> streamerSlider \<notin> set STREAMER_SLIDER_NAMES
        then (Inl (SliderNotFoundError streamerSlider), sent)
      else if js_less volume (Finite 0) \<or> js_less (Finite 1) volume
        then (Inl (InvalidVolumeError volume), sent)
      else
        (let fullVolumePath =
               (if priv_streamerMode s then volumePath s @ ''/'' @ streamerSlider
                else volumePath s) in
         case ToString (digits rt) (webServerAddress s) of
           Inl e \<Rightarrow> (Inl e, sent)
         | Inr address \<Rightarrow>
             send rt PUT
               (address @ fullVolumePath @ ''/'' @ channel @ ''/Volume/''
                  @ JSON_stringify_number (digits rt) volume)
               sent))"

definition muteChannel ::
  "runtime \<Rightarrow> Sonar \<Rightarrow> string \<Rightarrow> bool \<Rightarrow> string \<Rightarrow> requests \<Rightarrow> (error + jsvalue) \<times> requests" where
  "muteChannel rt s channel muted streamerSlider sent =
     (if channel \<notin> set CHANNEL_NAMES then (Inl (ChannelNotFoundError channel), sent)
      else if priv_streamerMode s \<and> streamerSlider \<notin> set STREAMER_SLIDER_NAMES
        then (Inl (SliderNotFoundError streamerSlider), sent)
      else
        (let fullVolumePath =
               (if priv_streamerMode s then volumePath s @ ''/'' @ streamerSlider
                else volumePath s);
             muteKeyword = (if priv_streamerMode s then ''isMuted'' else ''Mute'') in
         case ToString (digits rt) (webServerAddress s) of
           Inl e \<Rightarrow> (Inl e, sent)
         | Inr address \<Rightarrow>
             send rt PUT
               (address @ fullVolumePath @ ''/'' @ channel @ ''/'' @ muteKeyword @ ''/''
                  @ JSON_stringify_boolean muted)
               sent))"

definition getChatMixData :: "runtime \<Rightarrow> Sonar \<Rightarrow> requests \<Rightarrow> (error + jsvalue) \<times> requests" where
  "getChatMixData rt s sent =
     (case ToString (digits rt) (webServerAddress s) of
        Inl e \<Rightarrow> (Inl e, sent)
      | Inr address \<Rightarrow> send rt GET (address @ ''/chatMix'') sent)"

definition setChatMix :: "runtime \<Rightarrow> Sonar \<Rightarrow> number \<Rightarrow> requests \<Rightarrow> (error + jsvalue) \<times> requests" where
  "setChatMix rt s mixVolume sent =
     (if js_less mixVolume (Finite (- 1)) \<or> js_less (Finite 1) mixVolume
        then (Inl (InvalidMixVolumeError mixVolume), sent)
      else
        (case ToString (digits rt) (webServerAddress s) of
           Inl e \<Rightarrow> (Inl e, sent)
         | Inr address \<Rightarrow>
             send rt PUT
               (address @ ''/chatMix?balance='' @ JSON_stringify_number (digits rt) mixVolume)
               sent))"

subsection \<open>The public methods as one step\<close>

datatype call =
    IsStreamerMode
  | SetStreamerMode bool
  | GetVolumeData
  | SetVolume string number string
  | MuteChannel string bool string
  | GetChatMixData
  | SetChatMix number

text \<open>
  One call of a public method on a client: what it returns or throws, the client after
  it, and the requests sent so far. Only \<open>setStreamerMode\<close> writes to the client.
\<close>

fun perform :: "runtime \<Rightarrow> call \<Rightarrow> Sonar \<Rightarrow> requests \<Rightarrow> (error + jsvalue) \<times> Sonar \<times> requests" where
  "perform rt IsStreamerMode s sent =
     (case isStreamerMode rt s sent of
        (Inl e, sent') \<Rightarrow> (Inl e, s, sent')
      | (Inr b, sent') \<Rightarrow> (Inr (JBoolean b), s, sent'))"
| "perform rt (SetStreamerMode b) s sent =
     (case setStreamerMode rt s b sent of
        (Inl e, s', sent') \<Rightarrow> (Inl e, s', sent')
      | (Inr f, s', sent') \<Rightarrow> (Inr (JBoolean f), s', sent'))"
| "perform rt GetVolumeData s sent =
     (case getVolumeData rt s sent of (r, sent') \<Rightarrow> (r, s, sent'))"
| "perform rt (SetVolume channel volume slider) s sent =
     (case setVolume rt s channel volume slider sent of (r, sent') \<Rightarrow> (r, s, sent'))"
| "perform rt (MuteChannel channel muted slider) s sent =
     (case muteChannel rt s channel muted slider sent of (r, sent') \<Rightarrow> (r, s, sent'))"
| "perform rt GetChatMixData s sent =
     (case getChatMixData rt s sent of (r, sent') \<Rightarrow> (r, s, sent'))"
| "perform rt (SetChatMix mixVolume) s sent =
     (case setChatMix rt s mixVolume sent of (r, sent') \<Rightarrow> (r, s, sent'))"

section \<open>Shapes and test doubles\<close>

text \<open>
  A body of \<open>GET /subApps\<close> of the shape the interface \<open>SubAppInfo\<close> declares, and a
  configuration of the shape of \<open>CoreProperties\<close>.
\<close>

definition SubAppInfo :: "bool \<Rightarrow> bool \<Rightarrow> bool \<Rightarrow> string \<Rightarrow> jsvalue" where
  "SubAppInfo isEnabled isReady isRunning address =
     JObject [(''subApps'', JObject [(''sonar'', JObject
       [(''isEnabled'', JBoolean isEnabled),
        (''isReady'', JBoolean isReady),
        (''isRunning'', JBoolean isRunning),
        (''metadata'', JObject [(''webServerAddress'', JString address)])])])]"

definition CoreProperties :: "string \<Rightarrow> jsvalue" where
  "CoreProperties address = JObject [(''ggEncryptedAddress'', JString address)]"

text \<open>
  The doubles of \<open>sonar.test.ts\<close>: a configuration file holding
  \<open>{"ggEncryptedAddress": "127.0.0.1:8080"}\<close>, an engine that answers \<open>/subApps\<close>, every
  other \<open>GET\<close> and every \<open>PUT\<close> with one fixed reply each, and a network where nothing
  answers. \<open>test_JSON_parse\<close> and \<open>test_digits\<close> are \<open>JSON.parse\<close> and the printing of
  numbers on the few texts and numbers the examples below use.
\<close>

definition coreProps_text :: string where
  \<open>coreProps_text = ''{"ggEncryptedAddress": "127.0.0.1:8080"}''\<close>

definition test_JSON_parse :: "string \<Rightarrow> jsvalue option" where
  "test_JSON_parse text =
     (if text = coreProps_text then Some (CoreProperties ''127.0.0.1:8080'')
      else if text = ''{}'' then Some (JObject [])
      else None)"

definition test_digits :: "real \<Rightarrow> string" where
  "test_digits r =
     (if r = 0 then ''0'' else if r = 1 / 2 then ''0.5'' else if r = 1 then ''1''
      else if r = 3 / 2 then ''1.5'' else ''?'')"

fun posix_join :: "string list \<Rightarrow> string" where
  "posix_join [] = ''.''"
| "posix_join [p] = p"
| "posix_join (p # ps) = p @ ''/'' @ posix_join ps"

definition engine :: "reply \<Rightarrow> reply \<Rightarrow> reply \<Rightarrow> requests \<Rightarrow> verb \<Rightarrow> string \<Rightarrow> reply" where
  "engine subApps mode put sent m url =
     (if m = PUT then put
      else if url = ''https://127.0.0.1:8080/subApps'' then subApps
      else mode)"

definition unreachable :: "requests \<Rightarrow> verb \<Rightarrow> string \<Rightarrow> reply" where
  "unreachable sent m url = Rejected None"

definition test_runtime ::
  "string option \<Rightarrow> (requests \<Rightarrow> verb \<Rightarrow> string \<Rightarrow> reply) \<Rightarrow> runtime" where
  "test_runtime file net =
     \<lparr> platform = ''linux'', ProgramData = None, homedir = ''/home/user'',
       path_join = posix_join,
       existsSync = (\<lambda>p. file \<noteq> None),
       readFileSync = (\<lambda>p. file),
       JSON_parse = test_JSON_parse,
       digits = test_digits,
       transport = net \<rparr>"

definition ready_engine :: reply where
  "ready_engine = Resolved 200 (SubAppInfo True True True ''http://localhost:8081'')"

definition success :: reply where
  "success = Resolved 200 (JObject [(''success'', JBoolean True)])"

text \<open>The client that \<open>Sonar.create()\<close> returns against these doubles, in either mode.\<close>

definition test_client :: "bool \<Rightarrow> Sonar" where
  "test_client flag =
     \<lparr> appDataPath = ''/home/user/.local/share/SteelSeries Engine 3/coreProps.json'',
       baseUrl = ''https://127.0.0.1:8080'',
       webServerAddress = JString ''http://localhost:8081'',
       volumePath = (if flag then STREAMER_VOLUME_PATH else VOLUME_PATH),
       priv_streamerMode = flag \<rparr>"

definition no_options :: SonarOptions where
  "no_options = \<lparr> opt_appDataPath = None, opt_streamerMode = None \<rparr>"

text \<open>
  How a failing request shows in the outcome of a call: either the call sent nothing,
  or it sent one request and its outcome is decided by the reply to that request.
\<close>

definition surfaced :: "runtime \<Rightarrow> requests \<Rightarrow> (error + jsvalue) \<Rightarrow> requests \<Rightarrow> bool" where
  "surfaced rt sent out sent' \<longleftrightarrow>
     sent' = sent \<or>
     (\<exists>m url. sent' = sent @ [(m, url)] \<and>
        (case transport rt sent m url of
           Rejected r \<Rightarrow> out = Inl (rethrow (AxiosError r))
         | Resolved status body \<Rightarrow>
             if status \<noteq> 200 then out = Inl (ServerNotAccessibleError status)
             else (\<exists>v. out = Inr v)))"

text \<open>
  The arguments that pass the checks a method makes before it sends anything, and the
  request the method then sends, for a client whose address prints as \<open>address\<close>.
\<close>

fun accepted :: "Sonar \<Rightarrow> call \<Rightarrow> bool" where
  "accepted s (SetVolume channel volume slider) =
     (channel \<in> set CHANNEL_NAMES \<and>
      (priv_streamerMode s \<longrightarrow> slider \<in> set STREAMER_SLIDER_NAMES) \<and>
      \<not> js_less volume (Finite 0) \<and> \<not> js_less (Finite 1) volume)"
| "accepted s (MuteChannel channel muted slider) =
     (channel \<in> set CHANNEL_NAMES \<and>
      (priv_streamerMode s \<longrightarrow> slider \<in> set STREAMER_SLIDER_NAMES))"
| "accepted s (SetChatMix mixVolume) =
     (\<not> js_less mixVolume (Finite (- 1)) \<and> \<not> js_less (Finite 1) mixVolume)"
| "accepted s c = True"

fun request_of :: "runtime \<Rightarrow> Sonar \<Rightarrow> string \<Rightarrow> call \<Rightarrow> verb \<times> string" where
  "request_of rt s address IsStreamerMode = (GET, address @ ''/mode/'')"
| "request_of rt s address (SetStreamerMode b) =
     (PUT, address @ ''/mode/'' @ (if b then ''stream'' else ''classic''))"
| "request_of rt s address GetVolumeData = (GET, address @ volumePath s)"
| "request_of rt s address (SetVolume channel volume slider) =
     (PUT, address @ volumePath s @ (if priv_streamerMode s then ''/'' @ slider else [])
             @ ''/'' @ channel @ ''/Volume/'' @ JSON_stringify_number (digits rt) volume)"
| "request_of rt s address (MuteChannel channel muted slider) =
     (PUT, address @ volumePath s @ (if priv_streamerMode s then ''/'' @ slider else [])
             @ ''/'' @ channel @ ''/'' @ (if priv_streamerMode s then ''isMuted'' else ''Mute'')
             @ ''/'' @ JSON_stringify_boolean muted)"
| "request_of rt s address GetChatMixData = (GET, address @ ''/chatMix'')"
| "request_of rt s address (SetChatMix mixVolume) =
     (PUT, address @ ''/chatMix?balance='' @ JSON_stringify_number (digits rt) mixVolume)"

section \<open>Evaluation and helper lemmas\<close>

lemmas test_defs =
  test_runtime_def test_client_def no_options_def engine_def unreachable_def
  test_JSON_parse_def coreProps_text_def test_digits_def CoreProperties_def SubAppInfo_def
  ready_engine_def success_def getDefaultAppDataPath_def new_Sonar_def

lemmas client_defs =
  create_def loadBaseUrl_def loadServerAddress_def check_sonar_def subApps_sonar_def
  and_then_def isStreamerMode_def setStreamerMode_def send_def getVolumeData_def
  setVolume_def muteChannel_def getChatMixData_def setChatMix_def
  CHANNEL_NAMES_def STREAMER_SLIDER_NAMES_def VOLUME_PATH_def STREAMER_VOLUME_PATH_def
  JSON_stringify_boolean_def

lemma surfaced_same: "surfaced rt sent out sent"
  by (simp add: surfaced_def)

lemma send_surfaced:
  assumes "send rt m url sent = (r, sent')"
  shows "surfaced rt sent (case r of Inl e \<Rightarrow> Inl e | Inr v \<Rightarrow> Inr (f v)) sent'"
proof -
  from assms have s: "sent' = sent @ [(m, url)]"
    and r: "r = (case transport rt sent m url of
                   Rejected x \<Rightarrow> Inl (rethrow (AxiosError x))
                 | Resolved status body \<Rightarrow>
                     if status \<noteq> 200 then Inl (rethrow (ServerNotAccessibleError status))
                     else Inr body)"
    by (auto simp: send_def)
  have "case transport rt sent m url of
           Rejected x \<Rightarrow>
             (case r of Inl e \<Rightarrow> Inl e | Inr v \<Rightarrow> Inr (f v)) = Inl (rethrow (AxiosError x))
         | Resolved status body \<Rightarrow>
             if status \<noteq> 200
             then (case r of Inl e \<Rightarrow> Inl e | Inr v \<Rightarrow> Inr (f v))
                    = Inl (ServerNotAccessibleError status)
             else (\<exists>v. (case r of Inl e \<Rightarrow> Inl e | Inr v \<Rightarrow> Inr (f v)) = Inr v)"
    unfolding r by (simp split: reply.splits)
  with s show ?thesis
    unfolding surfaced_def by blast
qed

lemma send_surfaced_id:
  "send rt m url sent = (r, sent') \<Longrightarrow> surfaced rt sent r sent'"
  using send_surfaced [where f = "\<lambda>v. v"] by (cases r) fastforce+

lemma send_surfaced_pair:
  "surfaced rt sent (fst (send rt m url sent)) (snd (send rt m url sent))"
  by (rule send_surfaced_id) simp

lemma perform_surfaced:
  assumes "perform rt c s sent = (out, s', sent')"
  shows "surfaced rt sent out sent'"
proof (cases c)
  case IsStreamerMode
  show ?thesis
  proof (cases "ToString (digits rt) (webServerAddress s)")
    case (Inl e)
    with assms IsStreamerMode show ?thesis
      by (auto simp: isStreamerMode_def surfaced_same)
  next
    case (Inr address)
    obtain r sent1 where snd: "send rt GET (address @ ''/mode/'') sent = (r, sent1)"
      by (cases "send rt GET (address @ ''/mode/'') sent")
    from assms IsStreamerMode Inr snd
    have "out = (case r of Inl e \<Rightarrow> Inl e | Inr v \<Rightarrow> Inr (JBoolean (v = JString ''stream'')))"
      and "sent' = sent1"
      by (auto simp: isStreamerMode_def split: sum.splits)
    with send_surfaced [OF snd] show ?thesis by simp
  qed
next
  case (SetStreamerMode b)
  show ?thesis
  proof (cases "ToString (digits rt) (webServerAddress s)")
    case (Inl e)
    with assms SetStreamerMode show ?thesis
      by (auto simp: setStreamerMode_def surfaced_same)
  next
    case (Inr address)
    let ?url = "address @ ''/mode/'' @ (if b then ''stream'' else ''classic'')"
    obtain r sent1 where snd: "send rt PUT ?url sent = (r, sent1)"
      by (cases "send rt PUT ?url sent")
    from assms SetStreamerMode Inr snd
    have "out = (case r of Inl e \<Rightarrow> Inl e | Inr v \<Rightarrow> Inr (JBoolean (v = JString ''stream'')))"
      and "sent' = sent1"
      by (auto simp: setStreamerMode_def Let_def split: sum.splits)
    with send_surfaced [OF snd] show ?thesis by simp
  qed
next
  case GetVolumeData
  with assms show ?thesis
    by (auto simp: getVolumeData_def split_beta surfaced_same send_surfaced_pair
             split: sum.splits)
next
  case (SetVolume ch v sl)
  with assms show ?thesis
    by (auto simp: setVolume_def Let_def split_beta surfaced_same send_surfaced_pair
             split: sum.splits if_splits)
next
  case (MuteChannel ch mu sl)
  with assms show ?thesis
    by (auto simp: muteChannel_def Let_def split_beta surfaced_same send_surfaced_pair
             split: sum.splits if_splits)
next
  case GetChatMixData
  with assms show ?thesis
    by (auto simp: getChatMixData_def split_beta surfaced_same send_surfaced_pair
             split: sum.splits)
next
  case (SetChatMix v)
  with assms show ?thesis
    by (auto simp: setChatMix_def split_beta surfaced_same send_surfaced_pair
             split: sum.splits if_splits)
qed

lemma ToString_error: "ToString d v = Inl e \<Longrightarrow> e = TypeError"
  and join_error: "join d vs = Inl e \<Longrightarrow> e = TypeError"
  by (induction d v and d vs rule: ToString_join.induct)
     (auto split: sum.splits if_splits)

lemma send_error:
  "fst (send rt m url sent) = Inl e \<Longrightarrow> (\<exists>st. e = ServerNotAccessibleError st) \<or> e = AxiosError None"
proof (cases "transport rt sent m url")
  case (Resolved st body)
  then show "fst (send rt m url sent) = Inl e \<Longrightarrow> ?thesis"
    by (auto simp: send_def split: if_splits)
next
  case (Rejected r)
  then show "fst (send rt m url sent) = Inl e \<Longrightarrow> ?thesis"
    by (cases r) (auto simp: send_def)
qed

lemma send_sent: "snd (send rt m url sent) = sent @ [(m, url)]"
  by (simp add: send_def)

lemma send_200:
  "transport rt sent m url = Resolved 200 body \<Longrightarrow> send rt m url sent = (Inr body, sent @ [(m, url)])"
  by (simp add: send_def)

lemma loadBaseUrl_fields:
  "loadBaseUrl rt s = Inr s' \<Longrightarrow>
     volumePath s' = volumePath s \<and> priv_streamerMode s' = priv_streamerMode s"
  by (auto simp: loadBaseUrl_def split: if_splits option.splits sum.splits)

lemma check_sonar_fields:
  "check_sonar s d = Inr s' \<Longrightarrow>
     volumePath s' = volumePath s \<and> priv_streamerMode s' = priv_streamerMode s
     \<and> baseUrl s' = baseUrl s"
  by (auto simp: check_sonar_def and_then_def split: if_splits sum.splits)

lemma loadServerAddress_fields:
  "loadServerAddress rt s sent = (Inr s', sent') \<Longrightarrow>
     volumePath s' = volumePath s \<and> priv_streamerMode s' = priv_streamerMode s"
  by (auto simp: loadServerAddress_def Let_def split: reply.splits if_splits sum.splits
           dest: check_sonar_fields)

lemma loadServerAddress_sent:
  "snd (loadServerAddress rt s sent) = sent @ [(GET, baseUrl s @ ''/subApps'')]"
  by (simp add: loadServerAddress_def Let_def)


lemma isStreamerMode_sent:
  "snd (isStreamerMode rt s sent) = sent \<or>
   (\<exists>address. snd (isStreamerMode rt s sent) = sent @ [(GET, address @ ''/mode/'')])"
  by (auto simp: isStreamerMode_def send_def split: sum.splits reply.splits)

lemma new_Sonar_sync:
  "volumePath (new_Sonar rt options) =
     (if priv_streamerMode (new_Sonar rt options) then STREAMER_VOLUME_PATH else VOLUME_PATH)"
  by (simp add: new_Sonar_def Let_def)

lemma new_Sonar_flag:
  "priv_streamerMode (new_Sonar rt options) =
     (case opt_streamerMode options of None \<Rightarrow> False | Some b \<Rightarrow> b)"
  by (simp add: new_Sonar_def Let_def)

lemma create_sync:
  assumes "create rt options sent = (Inr s, sent')"
  shows "volumePath s = (if priv_streamerMode s then STREAMER_VOLUME_PATH else VOLUME_PATH)"
proof -
  from assms obtain s1 where s1: "loadBaseUrl rt (new_Sonar rt options) = Inr s1"
    by (auto simp: create_def Let_def split: sum.splits)
  obtain r2 sent1 where l: "loadServerAddress rt s1 sent = (r2, sent1)"
    by (cases "loadServerAddress rt s1 sent")
  with assms s1 obtain s2 where r2: "r2 = Inr s2"
    by (auto simp: create_def Let_def split: sum.splits)
  from loadBaseUrl_fields [OF s1] loadServerAddress_fields [OF l [unfolded r2]] new_Sonar_sync
  have sync2: "volumePath s2 = (if priv_streamerMode s2 then STREAMER_VOLUME_PATH else VOLUME_PATH)"
    by simp
  from loadBaseUrl_fields [OF s1] loadServerAddress_fields [OF l [unfolded r2]]
  have flag2: "priv_streamerMode s2 = (case opt_streamerMode options of None \<Rightarrow> False | Some b \<Rightarrow> b)"
    by (simp add: new_Sonar_flag)
  show ?thesis
  proof (cases "opt_streamerMode options")
    case (Some b)
    with assms s1 l r2 have "s = s2" by (simp add: create_def Let_def)
    with sync2 show ?thesis by simp
  next
    case None
    with flag2 sync2 have classic: "volumePath s2 = VOLUME_PATH" by simp
    obtain r3 sent2 where p: "isStreamerMode rt s2 sent1 = (r3, sent2)"
      by (cases "isStreamerMode rt s2 sent1")
    with assms s1 l r2 None classic show ?thesis
      by (cases r3) (auto simp: create_def Let_def split: if_splits)
  qed
qed

lemma perform_sync:
  assumes "volumePath s = (if priv_streamerMode s then STREAMER_VOLUME_PATH else VOLUME_PATH)"
    and "perform rt c s sent = (out, s', sent')"
  shows "volumePath s' = (if priv_streamerMode s' then STREAMER_VOLUME_PATH else VOLUME_PATH)"
proof (cases c)
  case (SetStreamerMode b)
  with assms show ?thesis
    by (auto simp: setStreamerMode_def Let_def split: sum.splits prod.splits)
qed (use assms in \<open>auto split: sum.splits prod.splits\<close>)



lemma setVolume_accepted:
  assumes "channel \<in> set CHANNEL_NAMES"
    and "priv_streamerMode s \<longrightarrow> slider \<in> set STREAMER_SLIDER_NAMES"
    and "\<not> js_less volume (Finite 0)" and "\<not> js_less (Finite 1) volume"
    and "ToString (digits rt) (webServerAddress s) = Inr address"
  shows "setVolume rt s channel volume slider sent =
           send rt PUT
             (address @ volumePath s @ (if priv_streamerMode s then ''/'' @ slider else [])
                @ ''/'' @ channel @ ''/Volume/'' @ JSON_stringify_number (digits rt) volume)
             sent"
  using assms by (simp add: setVolume_def Let_def)

lemma muteChannel_accepted:
  assumes "channel \<in> set CHANNEL_NAMES"
    and "priv_streamerMode s \<longrightarrow> slider \<in> set STREAMER_SLIDER_NAMES"
    and "ToString (digits rt) (webServerAddress s) = Inr address"
  shows "muteChannel rt s channel muted slider sent =
           send rt PUT
             (address @ volumePath s @ (if priv_streamerMode s then ''/'' @ slider else [])
                @ ''/'' @ channel @ ''/'' @ (if priv_streamerMode s then ''isMuted'' else ''Mute'')
                @ ''/'' @ JSON_stringify_boolean muted)
             sent"
  using assms by (simp add: muteChannel_def Let_def)

lemma setVolume_never_invalid_volume:
  assumes "\<not> js_less volume (Finite 0)" and "\<not> js_less (Finite 1) volume"
  shows "fst (setVolume rt s channel volume slider sent) \<noteq> Inl (InvalidVolumeError x)"
proof
  assume a: "fst (setVolume rt s channel volume slider sent) = Inl (InvalidVolumeError x)"
  show False
  proof (cases "ToString (digits rt) (webServerAddress s)")
    case (Inl e)
    then have "e = TypeError" by (rule ToString_error)
    with a Inl assms show False
      by (auto simp: setVolume_def Let_def split: if_splits)
  next
    case (Inr address)
    with a assms obtain url where "fst (send rt PUT url sent) = Inl (InvalidVolumeError x)"
      by (auto simp: setVolume_def Let_def split: if_splits)
    from send_error [OF this] show False by auto
  qed
qed

lemma perform_reply:
  assumes "perform rt c s sent = (out, s', sent')" and "sent' = sent @ [(m, url)]"
  shows "case transport rt sent m url of
           Rejected r \<Rightarrow> out = Inl (rethrow (AxiosError r))
         | Resolved status body \<Rightarrow>
             if status \<noteq> 200 then out = Inl (ServerNotAccessibleError status)
             else (\<exists>v. out = Inr v)"
proof -
  from perform_surfaced [OF assms(1)] assms(2)
  obtain m' url' where "sent @ [(m, url)] = sent @ [(m', url')]"
    and r: "case transport rt sent m' url' of
           Rejected r \<Rightarrow> out = Inl (rethrow (AxiosError r))
         | Resolved status body \<Rightarrow>
             if status \<noteq> 200 then out = Inl (ServerNotAccessibleError status)
             else (\<exists>v. out = Inr v)"
    unfolding surfaced_def by auto
  then have "m' = m" and "url' = url" by simp_all
  with r show ?thesis by simp
qed

lemma perform_sends:
  assumes "accepted s c" and "ToString (digits rt) (webServerAddress s) = Inr address"
  shows "snd (snd (perform rt c s sent)) = sent @ [request_of rt s address c]"
proof (cases c)
  case IsStreamerMode
  with assms show ?thesis
    by (simp add: isStreamerMode_def send_def split: reply.splits)
next
  case (SetStreamerMode b)
  with assms show ?thesis
    by (simp add: setStreamerMode_def send_def Let_def split: reply.splits)
next
  case GetVolumeData
  with assms show ?thesis
    by (simp add: getVolumeData_def send_def)
next
  case (SetVolume channel volume slider)
  with assms show ?thesis
    by (simp add: setVolume_def send_def Let_def)
next
  case (MuteChannel channel muted slider)
  with assms show ?thesis
    by (simp add: muteChannel_def send_def Let_def)
next
  case GetChatMixData
  with assms show ?thesis
    by (simp add: getChatMixData_def send_def)
next
  case (SetChatMix mixVolume)
  with assms show ?thesis
    by (simp add: setChatMix_def send_def)
qed

section \<open>Configuration\<close>

text \<open>
  C1, as stated, does not hold. The claim says that construction fails with
  \<open>EnginePathNotFoundError\<close>, before any request, also when the parsed configuration has
  no non-empty address field. \<open>loadBaseUrl\<close> never looks at the field: for the file \<open>{}\<close>
  the property is \<open>undefined\<close>, the base URL becomes \<open>https://undefined\<close>, and the factory
  goes on to request \<open>https://undefined/subApps\<close>. On a network where nothing answers,
  construction then fails with the transport's error, after that request.
\<close>

theorem C1_counterexample:
  "JSON_parse (test_runtime (Some ''{}'') unreachable) ''{}'' = Some (JObject []) \<and>
   Get (JObject []) ''ggEncryptedAddress'' = Inr JUndefined \<and>
   create (test_runtime (Some ''{}'') unreachable) no_options [] =
     (Inl (AxiosError None), [(GET, ''https://undefined/subApps'')])"
  by (simp add: test_defs client_defs)

text \<open>
  C1, amended. Construction fails with \<open>EnginePathNotFoundError\<close>, with no request sent and
  whatever the transport would answer, whenever the configuration file is missing,
  unreadable or unparseable. A parsed configuration object without the address field, or
  with an empty one, is not rejected: \<open>loadBaseUrl\<close> succeeds with the base URL
  \<open>https://undefined\<close>, respectively \<open>https://\<close>, and the factory's next step is the request
  \<open>GET <base>/subApps\<close>.
\<close>

theorem C1_configuration_not_found:
  assumes "p = appDataPath (new_Sonar rt options)"
  shows "(\<not> existsSync rt p \<or> readFileSync rt p = None \<or>
            (\<exists>content. readFileSync rt p = Some content \<and> JSON_parse rt content = None)
          \<longrightarrow> create rt options sent = (Inl EnginePathNotFoundError, sent))
       \<and> (existsSync rt p \<and> readFileSync rt p = Some content \<and>
            JSON_parse rt content = Some (JObject kvs) \<and>
            map_of kvs ''ggEncryptedAddress'' \<in> {None, Some (JString [])}
          \<longrightarrow> (\<exists>s. loadBaseUrl rt (new_Sonar rt options) = Inr s \<and>
                  baseUrl s = (if map_of kvs ''ggEncryptedAddress'' = None
                               then ''https://undefined'' else ''https://'') \<and>
                  (\<exists>more. snd (create rt options sent)
                            = sent @ (GET, baseUrl s @ ''/subApps'') # more)))"
proof (intro conjI impI)
  assume "\<not> existsSync rt p \<or> readFileSync rt p = None \<or>
            (\<exists>content. readFileSync rt p = Some content \<and> JSON_parse rt content = None)"
  with assms have "loadBaseUrl rt (new_Sonar rt options) = Inl EnginePathNotFoundError"
    by (auto simp: loadBaseUrl_def)
  then show "create rt options sent = (Inl EnginePathNotFoundError, sent)"
    by (simp add: create_def Let_def)
next
  let ?s0 = "new_Sonar rt options"
  let ?t = "if map_of kvs ''ggEncryptedAddress'' = None then ''https://undefined'' else ''https://''"
  assume a: "existsSync rt p \<and> readFileSync rt p = Some content \<and>
            JSON_parse rt content = Some (JObject kvs) \<and>
            map_of kvs ''ggEncryptedAddress'' \<in> {None, Some (JString [])}"
  with assms have l: "loadBaseUrl rt ?s0 = Inr (?s0\<lparr>baseUrl := ?t\<rparr>)"
    by (auto simp: loadBaseUrl_def)
  obtain r sent1 where s: "loadServerAddress rt (?s0\<lparr>baseUrl := ?t\<rparr>) sent = (r, sent1)"
    by (cases "loadServerAddress rt (?s0\<lparr>baseUrl := ?t\<rparr>) sent")
  with loadServerAddress_sent [of rt "?s0\<lparr>baseUrl := ?t\<rparr>" sent]
  have sent1: "sent1 = sent @ [(GET, ?t @ ''/subApps'')]" by simp
  have "\<exists>more. snd (create rt options sent) = sent @ (GET, ?t @ ''/subApps'') # more"
  proof (cases r)
    case (Inl e)
    with l s sent1 show ?thesis by (simp add: create_def Let_def)
  next
    case (Inr s2)
    show ?thesis
    proof (cases "opt_streamerMode options")
      case (Some b)
      with Inr l s sent1 show ?thesis by (simp add: create_def Let_def)
    next
      case None
      from isStreamerMode_sent [of rt s2 sent1]
      have "\<exists>more. snd (isStreamerMode rt s2 sent1) = sent1 @ more" by auto
      then obtain more where m: "snd (isStreamerMode rt s2 sent1) = sent1 @ more" ..
      have "snd (create rt options sent) = snd (isStreamerMode rt s2 sent1)"
        using None Inr l s by (simp add: create_def Let_def split: prod.splits sum.splits)
      with m sent1 show ?thesis by simp
    qed
  qed
  with l show "\<exists>s. loadBaseUrl rt ?s0 = Inr s \<and> baseUrl s = ?t \<and>
                  (\<exists>more. snd (create rt options sent)
                            = sent @ (GET, baseUrl s @ ''/subApps'') # more)"
    by simp
qed

theorem C1_configuration_not_found_witness:
  "create (test_runtime None (engine ready_engine (Resolved 200 (JString ''classic'')) success))
          no_options [] = (Inl EnginePathNotFoundError, [])
   \<and> (\<exists>s. loadBaseUrl (test_runtime (Some ''{}'') unreachable)
              (new_Sonar (test_runtime (Some ''{}'') unreachable) no_options) = Inr s
          \<and> baseUrl s = ''https://undefined'')"
  using C1_configuration_not_found
          [where rt = "test_runtime None
                         (engine ready_engine (Resolved 200 (JString ''classic'')) success)"
             and options = no_options and sent = "[]"
             and p = "appDataPath (new_Sonar (test_runtime None
                        (engine ready_engine (Resolved 200 (JString ''classic'')) success))
                        no_options)"]
        C1_configuration_not_found
          [where rt = "test_runtime (Some ''{}'') unreachable"
             and options = no_options and sent = "[]" and content = "''{}''" and kvs = "[]"
             and p = "appDataPath (new_Sonar (test_runtime (Some ''{}'') unreachable)
                        no_options)"]
  by (auto simp: test_runtime_def test_JSON_parse_def coreProps_text_def)

section \<open>Address resolution\<close>



section \<open>Mode\<close>

text \<open>
  C5. For either argument of \<open>setStreamerMode\<close>, when the \<open>PUT\<close> it sends is answered with
  status 200 and some body, the flag becomes whether that body is the string \<open>stream\<close>,
  the volume path becomes the constant of that flag, and that flag is returned: the body
  decides, not the argument. One request is sent, to \<open><address>/mode/stream\<close> or
  \<open><address>/mode/classic\<close>.
\<close>

theorem C5_echo_decides_mode:
  assumes "ToString (digits rt) (webServerAddress s) = Inr address"
    and "transport rt sent PUT (address @ ''/mode/'' @ (if b then ''stream'' else ''classic''))
           = Resolved 200 body"
  shows "setStreamerMode rt s b sent =
           (Inr (body = JString ''stream''),
            s\<lparr>priv_streamerMode := (body = JString ''stream''),
              volumePath := (if body = JString ''stream'' then STREAMER_VOLUME_PATH
                             else VOLUME_PATH)\<rparr>,
            sent @ [(PUT, address @ ''/mode/'' @ (if b then ''stream'' else ''classic''))])"
  using assms by (simp add: setStreamerMode_def send_def Let_def)

theorem C5_echo_decides_mode_witness:
  "setStreamerMode (test_runtime (Some coreProps_text)
                      (engine ready_engine (Resolved 200 (JString ''classic''))
                         (Resolved 200 (JString ''classic''))))
                   (test_client False) True [] =
     (Inr False, test_client False, [(PUT, ''http://localhost:8081/mode/stream'')])"
  using C5_echo_decides_mode
          [where rt = "test_runtime (Some coreProps_text)
                         (engine ready_engine (Resolved 200 (JString ''classic''))
                            (Resolved 200 (JString ''classic'')))"
             and s = "test_client False" and b = True and sent = "[]"
             and address = "''http://localhost:8081''" and body = "JString ''classic''"]
  by (simp add: test_defs)

section \<open>Volumes\<close>

text \<open>
  C3, as stated, does not hold in streamer mode. There the URL of the \<open>PUT\<close> has the slider
  between the volume path and the channel: for \<open>setVolume('master', 0.5)\<close> on a client in
  streamer mode it is \<open><address>/volumeSettings/streamer/streaming/master/Volume/0.5\<close>, not
  \<open><address>/volumeSettings/streamer/master/Volume/0.5\<close>.
\<close>

theorem C3_counterexample:
  "priv_streamerMode (test_client True) \<and>
   ''master'' \<in> set CHANNEL_NAMES \<and>
   setVolume (test_runtime (Some coreProps_text)
                (engine ready_engine (Resolved 200 (JString ''stream'')) success))
             (test_client True) ''master'' (Finite (1 / 2)) ''streaming'' [] =
     (Inr (JObject [(''success'', JBoolean True)]),
      [(PUT, ''http://localhost:8081/volumeSettings/streamer/streaming/master/Volume/0.5'')]) \<and>
   ''http://localhost:8081'' @ volumePath (test_client True) @ ''/master/Volume/0.5''
     \<noteq> ''http://localhost:8081/volumeSettings/streamer/streaming/master/Volume/0.5''"
  by (simp add: test_defs client_defs)

text \<open>
  C3, amended. For each of the six channel names and each volume among 0, 0.5 and 1,
  \<open>setVolume\<close> sends exactly one request, a \<open>PUT\<close>, to
  \<open><address><volumePath>/<channel>/Volume/<volume>\<close> in classic mode and to
  \<open><address><volumePath>/<slider>/<channel>/Volume/<volume>\<close> in streamer mode (the slider
  being one of the two slider names), with the volume printed by \<open>JSON.stringify\<close>; when
  the reply has status 200, its body is returned as it is.
\<close>

theorem C3_setVolume_request:
  assumes "channel \<in> set CHANNEL_NAMES"
    and "v \<in> {0, 1 / 2, 1}"
    and "priv_streamerMode s \<longrightarrow> slider \<in> set STREAMER_SLIDER_NAMES"
    and "ToString (digits rt) (webServerAddress s) = Inr address"
    and "url = address @ volumePath s @ (if priv_streamerMode s then ''/'' @ slider else [])
                 @ ''/'' @ channel @ ''/Volume/'' @ JSON_stringify_number (digits rt) (Finite v)"
  shows "snd (setVolume rt s channel (Finite v) slider sent) = sent @ [(PUT, url)] \<and>
         (\<forall>body. transport rt sent PUT url = Resolved 200 body \<longrightarrow>
                 fst (setVolume rt s channel (Finite v) slider sent) = Inr body)"
proof -
  from assms(2) have "\<not> js_less (Finite v) (Finite 0)" and "\<not> js_less (Finite 1) (Finite v)"
    by auto
  with assms have "setVolume rt s channel (Finite v) slider sent = send rt PUT url sent"
    by (simp add: setVolume_accepted)
  then show ?thesis
    by (simp add: send_def)
qed

theorem C3_setVolume_request_witness:
  "setVolume (test_runtime (Some coreProps_text)
                (engine ready_engine (Resolved 200 (JString ''classic'')) success))
             (test_client False) ''master'' (Finite (1 / 2)) ''streaming'' [] =
     (Inr (JObject [(''success'', JBoolean True)]),
      [(PUT, ''http://localhost:8081/volumeSettings/classic/master/Volume/0.5'')])"
  using C3_setVolume_request
          [where rt = "test_runtime (Some coreProps_text)
                         (engine ready_engine (Resolved 200 (JString ''classic'')) success)"
             and s = "test_client False" and channel = "''master''" and v = "1 / 2"
             and slider = "''streaming''" and sent = "[]"
             and address = "''http://localhost:8081''"
             and url = "''http://localhost:8081/volumeSettings/classic/master/Volume/0.5''"]
  by (simp add: test_defs CHANNEL_NAMES_def VOLUME_PATH_def prod_eq_iff)

text \<open>
  C6. With a channel of the six, and in streamer mode a slider of the two, \<open>setVolume\<close>
  throws \<open>InvalidVolumeError\<close> exactly when the volume is below 0 or above 1, strictly; the
  error then carries the volume that was passed and no request is sent. The bounds 0 and 1
  are accepted. Of the doubles that are not finite, the two infinities are refused in the
  same way and NaN, which is neither below 0 nor above 1, is not.
\<close>

theorem C6_invalid_volume:
  assumes "channel \<in> set CHANNEL_NAMES"
    and "priv_streamerMode s \<longrightarrow> slider \<in> set STREAMER_SLIDER_NAMES"
  shows "((\<exists>x. fst (setVolume rt s channel (Finite v) slider sent) = Inl (InvalidVolumeError x))
            \<longleftrightarrow> v < 0 \<or> 1 < v)
       \<and> (v < 0 \<or> 1 < v \<longrightarrow>
            setVolume rt s channel (Finite v) slider sent
              = (Inl (InvalidVolumeError (Finite v)), sent))
       \<and> (\<forall>x. fst (setVolume rt s channel (Finite 0) slider sent) \<noteq> Inl (InvalidVolumeError x))
       \<and> (\<forall>x. fst (setVolume rt s channel (Finite 1) slider sent) \<noteq> Inl (InvalidVolumeError x))
       \<and> setVolume rt s channel NegInfinity slider sent
            = (Inl (InvalidVolumeError NegInfinity), sent)
       \<and> setVolume rt s channel PosInfinity slider sent
            = (Inl (InvalidVolumeError PosInfinity), sent)
       \<and> (\<forall>x. fst (setVolume rt s channel NaN slider sent) \<noteq> Inl (InvalidVolumeError x))"
proof -
  have out: "v < 0 \<or> 1 < v \<Longrightarrow>
             setVolume rt s channel (Finite v) slider sent
               = (Inl (InvalidVolumeError (Finite v)), sent)"
    using assms by (auto simp: setVolume_def)
  have inside: "\<not> (v < 0 \<or> 1 < v) \<Longrightarrow>
                fst (setVolume rt s channel (Finite v) slider sent) \<noteq> Inl (InvalidVolumeError x)"
    for x
    by (rule setVolume_never_invalid_volume) simp_all
  have iff: "(\<exists>x. fst (setVolume rt s channel (Finite v) slider sent) = Inl (InvalidVolumeError x))
               \<longleftrightarrow> v < 0 \<or> 1 < v"
    using out inside by (metis fst_conv)
  have zero: "fst (setVolume rt s channel (Finite 0) slider sent) \<noteq> Inl (InvalidVolumeError x)"
    for x
    by (rule setVolume_never_invalid_volume) simp_all
  have one: "fst (setVolume rt s channel (Finite 1) slider sent) \<noteq> Inl (InvalidVolumeError x)"
    for x
    by (rule setVolume_never_invalid_volume) simp_all
  have nan: "fst (setVolume rt s channel NaN slider sent) \<noteq> Inl (InvalidVolumeError x)"
    for x
    by (rule setVolume_never_invalid_volume) simp_all
  have neg: "setVolume rt s channel NegInfinity slider sent
               = (Inl (InvalidVolumeError NegInfinity), sent)"
    using assms by (auto simp: setVolume_def)
  have pos: "setVolume rt s channel PosInfinity slider sent
               = (Inl (InvalidVolumeError PosInfinity), sent)"
    using assms by (auto simp: setVolume_def)
  from iff out zero one neg pos nan show ?thesis by blast
qed

theorem C6_invalid_volume_witness:
  "setVolume (test_runtime (Some coreProps_text)
                (engine ready_engine (Resolved 200 (JString ''classic'')) success))
             (test_client False) ''master'' (Finite (3 / 2)) ''streaming'' []
     = (Inl (InvalidVolumeError (Finite (3 / 2))), [])
   \<and> setVolume (test_runtime (Some coreProps_text)
                (engine ready_engine (Resolved 200 (JString ''classic'')) success))
             (test_client True) ''game'' (Finite (- 1 / 100)) ''monitoring'' []
     = (Inl (InvalidVolumeError (Finite (- 1 / 100))), [])"
  using C6_invalid_volume
          [where rt = "test_runtime (Some coreProps_text)
                         (engine ready_engine (Resolved 200 (JString ''classic'')) success)"
             and s = "test_client False" and channel = "''master''" and v = "3 / 2"
             and slider = "''streaming''" and sent = "[]"]
        C6_invalid_volume
          [where rt = "test_runtime (Some coreProps_text)
                         (engine ready_engine (Resolved 200 (JString ''classic'')) success)"
             and s = "test_client True" and channel = "''game''" and v = "- 1 / 100"
             and slider = "''monitoring''" and sent = "[]"]
  by (simp add: test_client_def CHANNEL_NAMES_def STREAMER_SLIDER_NAMES_def)

text \<open>
  C7. For \<open>setVolume\<close> and \<open>muteChannel\<close> with a channel of the six and a slider that is
  neither \<open>streaming\<close> nor \<open>monitoring\<close>: in streamer mode both throw
  \<open>SliderNotFoundError\<close> carrying that slider and send nothing; in classic mode neither
  throws \<open>SliderNotFoundError\<close>, and the call goes on to its one \<open>PUT\<close>, whose URL
  \<open><address><volumePath>/<channel>/Mute/<muted>\<close>, respectively
  \<open><address><volumePath>/<channel>/Volume/<volume>\<close> for a volume within bounds, does not
  hold the slider.
\<close>

theorem C7_slider_only_in_streamer_mode:
  assumes "channel \<in> set CHANNEL_NAMES"
    and "slider \<notin> set STREAMER_SLIDER_NAMES"
  shows "(priv_streamerMode s \<longrightarrow>
            setVolume rt s channel volume slider sent = (Inl (SliderNotFoundError slider), sent)
          \<and> muteChannel rt s channel muted slider sent = (Inl (SliderNotFoundError slider), sent))
       \<and> (\<not> priv_streamerMode s \<longrightarrow>
            (\<forall>x. fst (setVolume rt s channel volume slider sent) \<noteq> Inl (SliderNotFoundError x))
          \<and> (\<forall>x. fst (muteChannel rt s channel muted slider sent) \<noteq> Inl (SliderNotFoundError x))
          \<and> (\<forall>address. ToString (digits rt) (webServerAddress s) = Inr address \<longrightarrow>
                muteChannel rt s channel muted slider sent
                  = send rt PUT (address @ volumePath s @ ''/'' @ channel @ ''/Mute/''
                                   @ JSON_stringify_boolean muted) sent
              \<and> (\<not> js_less volume (Finite 0) \<and> \<not> js_less (Finite 1) volume \<longrightarrow>
                   setVolume rt s channel volume slider sent
                     = send rt PUT (address @ volumePath s @ ''/'' @ channel @ ''/Volume/''
                                      @ JSON_stringify_number (digits rt) volume) sent)))"
proof (intro conjI impI allI)
  assume "priv_streamerMode s"
  with assms show "setVolume rt s channel volume slider sent = (Inl (SliderNotFoundError slider), sent)"
    by (simp add: setVolume_def)
  from \<open>priv_streamerMode s\<close> assms
  show "muteChannel rt s channel muted slider sent = (Inl (SliderNotFoundError slider), sent)"
    by (simp add: muteChannel_def)
next
  fix x
  assume classic: "\<not> priv_streamerMode s"
  show "fst (setVolume rt s channel volume slider sent) \<noteq> Inl (SliderNotFoundError x)"
  proof
    assume a: "fst (setVolume rt s channel volume slider sent) = Inl (SliderNotFoundError x)"
    show False
    proof (cases "ToString (digits rt) (webServerAddress s)")
      case (Inl e)
      then have "e = TypeError" by (rule ToString_error)
      with a Inl assms classic show False
        by (auto simp: setVolume_def Let_def split: if_splits)
    next
      case (Inr address)
      with a assms classic obtain url where "fst (send rt PUT url sent) = Inl (SliderNotFoundError x)"
        by (auto simp: setVolume_def Let_def split: if_splits)
      from send_error [OF this] show False by auto
    qed
  qed
next
  fix x
  assume classic: "\<not> priv_streamerMode s"
  show "fst (muteChannel rt s channel muted slider sent) \<noteq> Inl (SliderNotFoundError x)"
  proof
    assume a: "fst (muteChannel rt s channel muted slider sent) = Inl (SliderNotFoundError x)"
    show False
    proof (cases "ToString (digits rt) (webServerAddress s)")
      case (Inl e)
      then have "e = TypeError" by (rule ToString_error)
      with a Inl assms classic show False
        by (auto simp: muteChannel_def Let_def split: if_splits)
    next
      case (Inr address)
      with a assms classic obtain url where "fst (send rt PUT url sent) = Inl (SliderNotFoundError x)"
        by (auto simp: muteChannel_def Let_def split: if_splits)
      from send_error [OF this] show False by auto
    qed
  qed
next
  fix address
  assume classic: "\<not> priv_streamerMode s"
    and address: "ToString (digits rt) (webServerAddress s) = Inr address"
  with assms show "muteChannel rt s channel muted slider sent
                  = send rt PUT (address @ volumePath s @ ''/'' @ channel @ ''/Mute/''
                                   @ JSON_stringify_boolean muted) sent"
    by (simp add: muteChannel_def Let_def)
next
  fix address
  assume classic: "\<not> priv_streamerMode s"
    and address: "ToString (digits rt) (webServerAddress s) = Inr address"
    and "\<not> js_less volume (Finite 0) \<and> \<not> js_less (Finite 1) volume"
  with assms show "setVolume rt s channel volume slider sent
                     = send rt PUT (address @ volumePath s @ ''/'' @ channel @ ''/Volume/''
                                      @ JSON_stringify_number (digits rt) volume) sent"
    by (simp add: setVolume_def Let_def)
qed

theorem C7_slider_only_in_streamer_mode_witness:
  "setVolume (test_runtime (Some coreProps_text)
                (engine ready_engine (Resolved 200 (JString ''stream'')) success))
             (test_client True) ''master'' (Finite (1 / 2)) ''headphones'' []
     = (Inl (SliderNotFoundError ''headphones''), [])
   \<and> muteChannel (test_runtime (Some coreProps_text)
                (engine ready_engine (Resolved 200 (JString ''stream'')) success))
             (test_client True) ''master'' True ''headphones'' []
     = (Inl (SliderNotFoundError ''headphones''), [])
   \<and> muteChannel (test_runtime (Some coreProps_text)
                (engine ready_engine (Resolved 200 (JString ''classic'')) success))
             (test_client False) ''game'' True ''headphones'' []
     = (Inr (JObject [(''success'', JBoolean True)]),
        [(PUT, ''http://localhost:8081/volumeSettings/classic/game/Mute/true'')])
   \<and> setVolume (test_runtime (Some coreProps_text)
                (engine ready_engine (Resolved 200 (JString ''classic'')) success))
             (test_client False) ''game'' (Finite (1 / 2)) ''headphones'' []
     = (Inr (JObject [(''success'', JBoolean True)]),
        [(PUT, ''http://localhost:8081/volumeSettings/classic/game/Volume/0.5'')])"
  using C7_slider_only_in_streamer_mode
          [where rt = "test_runtime (Some coreProps_text)
                         (engine ready_engine (Resolved 200 (JString ''stream'')) success)"
             and s = "test_client True" and channel = "''master''" and volume = "Finite (1 / 2)"
             and muted = True and slider = "''headphones''" and sent = "[]"]
        C7_slider_only_in_streamer_mode
          [where rt = "test_runtime (Some coreProps_text)
                         (engine ready_engine (Resolved 200 (JString ''classic'')) success)"
             and s = "test_client False" and channel = "''game''" and volume = "Finite (1 / 2)"
             and muted = True and slider = "''headphones''" and sent = "[]"]
  by (simp add: test_defs CHANNEL_NAMES_def STREAMER_SLIDER_NAMES_def VOLUME_PATH_def
        send_def JSON_stringify_boolean_def)

section \<open>The mode flag and the volume path\<close>

text \<open>
  C4. The stored volume path is the streamer constant when the flag is true and the
  classic constant when it is false: this holds of every client the factory returns, and
  every call of a public method keeps it, whether the call returns or throws. So when
  \<open>setStreamerMode(true)\<close> has returned true, the \<open>getVolumeData\<close> that follows requests
  \<open><address>/volumeSettings/streamer\<close>, with nothing resolved again in between.
\<close>

theorem C4_path_follows_flag:
  "(fst (create rt options sent) = Inr s0 \<longrightarrow>
      volumePath s0 = (if priv_streamerMode s0 then STREAMER_VOLUME_PATH else VOLUME_PATH))
   \<and> (volumePath s = (if priv_streamerMode s then STREAMER_VOLUME_PATH else VOLUME_PATH) \<longrightarrow>
      perform rt c s sent = (out, s', sent') \<longrightarrow>
      volumePath s' = (if priv_streamerMode s' then STREAMER_VOLUME_PATH else VOLUME_PATH))
   \<and> (setStreamerMode rt s True sent = (Inr True, s'', sent'') \<longrightarrow>
      ToString (digits rt) (webServerAddress s'') = Inr address \<longrightarrow>
      snd (getVolumeData rt s'' sent'') = sent'' @ [(GET, address @ STREAMER_VOLUME_PATH)])"
proof (intro conjI impI)
  assume "fst (create rt options sent) = Inr s0"
  then have "create rt options sent = (Inr s0, snd (create rt options sent))"
    by (simp add: prod_eq_iff)
  then show "volumePath s0 = (if priv_streamerMode s0 then STREAMER_VOLUME_PATH else VOLUME_PATH)"
    by (rule create_sync)
next
  assume "volumePath s = (if priv_streamerMode s then STREAMER_VOLUME_PATH else VOLUME_PATH)"
    and "perform rt c s sent = (out, s', sent')"
  then show "volumePath s' = (if priv_streamerMode s' then STREAMER_VOLUME_PATH else VOLUME_PATH)"
    by (rule perform_sync)
next
  assume set: "setStreamerMode rt s True sent = (Inr True, s'', sent'')"
    and address: "ToString (digits rt) (webServerAddress s'') = Inr address"
  from set have "volumePath s'' = STREAMER_VOLUME_PATH"
    by (auto simp: setStreamerMode_def Let_def split: sum.splits prod.splits)
  with address
  show "snd (getVolumeData rt s'' sent'') = sent'' @ [(GET, address @ STREAMER_VOLUME_PATH)]"
    by (simp add: getVolumeData_def send_sent)
qed

theorem C4_path_follows_flag_witness:
  "setStreamerMode (test_runtime (Some coreProps_text)
                      (engine ready_engine (Resolved 200 JNull) (Resolved 200 (JString ''stream''))))
                   (test_client False) True []
     = (Inr True, test_client True, [(PUT, ''http://localhost:8081/mode/stream'')])
   \<and> snd (getVolumeData (test_runtime (Some coreProps_text)
                      (engine ready_engine (Resolved 200 JNull) (Resolved 200 (JString ''stream''))))
             (test_client True) [(PUT, ''http://localhost:8081/mode/stream'')])
     = [(PUT, ''http://localhost:8081/mode/stream''),
        (GET, ''http://localhost:8081/volumeSettings/streamer'')]"
proof -
  let ?rt = "test_runtime (Some coreProps_text)
               (engine ready_engine (Resolved 200 JNull) (Resolved 200 (JString ''stream'')))"
  have set: "setStreamerMode ?rt (test_client False) True []
               = (Inr True, test_client True, [(PUT, ''http://localhost:8081/mode/stream'')])"
    by (simp add: test_defs client_defs)
  have address: "ToString (digits ?rt) (webServerAddress (test_client True))
                   = Inr ''http://localhost:8081''"
    by (simp add: test_client_def)
  from C4_path_follows_flag
         [where rt = ?rt and s = "test_client False" and sent = "[]" and s'' = "test_client True"
            and sent'' = "[(PUT, ''http://localhost:8081/mode/stream'')]"
            and address = "''http://localhost:8081''"]
       set address
  have "snd (getVolumeData ?rt (test_client True) [(PUT, ''http://localhost:8081/mode/stream'')])
          = [(PUT, ''http://localhost:8081/mode/stream'')]
            @ [(GET, ''http://localhost:8081'' @ STREAMER_VOLUME_PATH)]"
    by blast
  with set show ?thesis
    by (simp add: STREAMER_VOLUME_PATH_def)
qed

section \<open>Failures\<close>

text \<open>
  C8. Every public method (\<open>isStreamerMode\<close>, \<open>setStreamerMode\<close>, \<open>getVolumeData\<close>,
  \<open>setVolume\<close>, \<open>muteChannel\<close>, \<open>getChatMixData\<close>, \<open>setChatMix\<close>), called with arguments
  that pass its own checks on a client whose address prints, sends exactly one request,
  the one of that method, and the reply to it decides the failure: a response with a
  status other than 200 gives \<open>ServerNotAccessibleError\<close> with that status, a transport
  error with a response gives \<open>ServerNotAccessibleError\<close> with the status of that response,
  and a transport error without a response is thrown on as it is, which is not a
  \<open>ServerNotAccessibleError\<close>.
\<close>

theorem C8_failure_translation:
  assumes "accepted s c"
    and "ToString (digits rt) (webServerAddress s) = Inr address"
    and "request_of rt s address c = (m, url)"
  shows "snd (snd (perform rt c s sent)) = sent @ [(m, url)] \<and>
         (case transport rt sent m url of
            Resolved status body \<Rightarrow>
              (status \<noteq> 200 \<longrightarrow>
                 fst (perform rt c s sent) = Inl (ServerNotAccessibleError status))
          | Rejected r \<Rightarrow>
              (case r of
                 Some status \<Rightarrow> fst (perform rt c s sent) = Inl (ServerNotAccessibleError status)
               | None \<Rightarrow> fst (perform rt c s sent) = Inl (AxiosError None)))"
proof -
  let ?run = "perform rt c s sent"
  have run: "?run = (fst ?run, fst (snd ?run), snd (snd ?run))"
    by simp
  from perform_sends [OF assms(1,2)] assms(3)
  have sent: "snd (snd ?run) = sent @ [(m, url)]"
    by simp
  from perform_reply [OF run sent]
  have "case transport rt sent m url of
            Resolved status body \<Rightarrow>
              (status \<noteq> 200 \<longrightarrow> fst ?run = Inl (ServerNotAccessibleError status))
          | Rejected r \<Rightarrow>
              (case r of
                 Some status \<Rightarrow> fst ?run = Inl (ServerNotAccessibleError status)
               | None \<Rightarrow> fst ?run = Inl (AxiosError None))"
    by (auto split: reply.splits option.splits if_splits)
  with sent show ?thesis
    by simp
qed

theorem C8_failure_translation_witness:
  "perform (test_runtime (Some coreProps_text)
              (engine ready_engine (Resolved 500 JNull) (Resolved 500 JNull)))
           GetChatMixData (test_client False) []
     = (Inl (ServerNotAccessibleError 500), test_client False,
        [(GET, ''http://localhost:8081/chatMix'')])
   \<and> perform (test_runtime (Some coreProps_text)
              (engine ready_engine (Rejected (Some 500)) (Rejected (Some 500))))
           (SetChatMix (Finite (1 / 2))) (test_client False) []
     = (Inl (ServerNotAccessibleError 500), test_client False,
        [(PUT, ''http://localhost:8081/chatMix?balance=0.5'')])
   \<and> perform (test_runtime (Some coreProps_text) unreachable)
           (SetVolume ''master'' (Finite (1 / 2)) ''streaming'') (test_client True) []
     = (Inl (AxiosError None), test_client True,
        [(PUT, ''http://localhost:8081/volumeSettings/streamer/streaming/master/Volume/0.5'')])"
proof -
  let ?rt1 = "test_runtime (Some coreProps_text)
                (engine ready_engine (Resolved 500 JNull) (Resolved 500 JNull))"
  let ?rt2 = "test_runtime (Some coreProps_text)
                (engine ready_engine (Rejected (Some 500)) (Rejected (Some 500)))"
  let ?rt3 = "test_runtime (Some coreProps_text) unreachable"
  have state: "fst (snd (perform rt c s sent)) = s" if "\<forall>b. c \<noteq> SetStreamerMode b"
    for rt c s sent
    using that by (cases c) (auto split: prod.splits sum.splits)
  from C8_failure_translation
         [where rt = ?rt1 and s = "test_client False" and c = GetChatMixData and sent = "[]"
            and address = "''http://localhost:8081''" and m = GET
            and url = "''http://localhost:8081/chatMix''"]
  have "fst (perform ?rt1 GetChatMixData (test_client False) [])
          = Inl (ServerNotAccessibleError 500)
        \<and> snd (snd (perform ?rt1 GetChatMixData (test_client False) []))
          = [(GET, ''http://localhost:8081/chatMix'')]"
    by (simp add: test_runtime_def test_client_def engine_def)
  moreover
  from C8_failure_translation
         [where rt = ?rt2 and s = "test_client False" and c = "SetChatMix (Finite (1 / 2))"
            and sent = "[]" and address = "''http://localhost:8081''" and m = PUT
            and url = "''http://localhost:8081/chatMix?balance=0.5''"]
  have "fst (perform ?rt2 (SetChatMix (Finite (1 / 2))) (test_client False) [])
          = Inl (ServerNotAccessibleError 500)
        \<and> snd (snd (perform ?rt2 (SetChatMix (Finite (1 / 2))) (test_client False) []))
          = [(PUT, ''http://localhost:8081/chatMix?balance=0.5'')]"
    by (simp add: test_runtime_def test_client_def engine_def test_digits_def)
  moreover
  from C8_failure_translation
         [where rt = ?rt3 and s = "test_client True"
            and c = "SetVolume ''master'' (Finite (1 / 2)) ''streaming''"
            and sent = "[]" and address = "''http://localhost:8081''" and m = PUT
            and url = "''http://localhost:8081/volumeSettings/streamer/streaming/master/Volume/0.5''"]
  have "fst (perform ?rt3 (SetVolume ''master'' (Finite (1 / 2)) ''streaming'') (test_client True) [])
          = Inl (AxiosError None)
        \<and> snd (snd (perform ?rt3 (SetVolume ''master'' (Finite (1 / 2)) ''streaming'')
                       (test_client True) []))
          = [(PUT, ''http://localhost:8081/volumeSettings/streamer/streaming/master/Volume/0.5'')]"
    by (simp add: test_runtime_def test_client_def unreachable_def test_digits_def
          CHANNEL_NAMES_def STREAMER_SLIDER_NAMES_def STREAMER_VOLUME_PATH_def)
  ultimately show ?thesis
    using state [of GetChatMixData ?rt1 "test_client False" "[]"]
          state [of "SetChatMix (Finite (1 / 2))" ?rt2 "test_client False" "[]"]
          state [of "SetVolume ''master'' (Finite (1 / 2)) ''streaming''" ?rt3
                   "test_client True" "[]"]
    by (simp add: prod_eq_iff)
qed

section \<open>The factory and the mode\<close>



text \<open>
  C10. Called with the \<open>streamerMode\<close> option set, to true or to false, the factory sends
  no request about the mode: it sends nothing when the configuration fails, and otherwise
  the one \<open>GET <base>/subApps\<close> and nothing more. The client it returns has the flag of
  the option and the volume path of that flag. The server is not asked, so the flag can
  differ from the server's mode: for either value of the option there is a server that
  reports the other mode when asked right after construction.
\<close>

theorem C10_explicit_mode_is_adopted:
  assumes "opt_streamerMode options = Some b"
  shows "(snd (create rt options sent) = sent \<or>
          (\<exists>base. snd (create rt options sent) = sent @ [(GET, base @ ''/subApps'')]))
       \<and> (\<forall>s. fst (create rt options sent) = Inr s \<longrightarrow>
              priv_streamerMode s = b \<and>
              volumePath s = (if b then STREAMER_VOLUME_PATH else VOLUME_PATH))
       \<and> (\<exists>rt' s' sent'.
              create rt' \<lparr>opt_appDataPath = None, opt_streamerMode = Some b\<rparr> [] = (Inr s', sent')
            \<and> priv_streamerMode s' = b
            \<and> fst (isStreamerMode rt' s' sent') = Inr (\<not> b))"
proof -
  have requests: "snd (create rt options sent) = sent \<or>
          (\<exists>base. snd (create rt options sent) = sent @ [(GET, base @ ''/subApps'')])"
  proof (cases "loadBaseUrl rt (new_Sonar rt options)")
    case (Inl e)
    then show ?thesis by (simp add: create_def Let_def)
  next
    case (Inr s1)
    with assms have "snd (create rt options sent) = snd (loadServerAddress rt s1 sent)"
      by (cases "loadServerAddress rt s1 sent") (auto simp: create_def Let_def split: sum.splits)
    then show ?thesis
      by (auto simp: loadServerAddress_sent)
  qed
  have adopted: "priv_streamerMode s = b \<and>
        volumePath s = (if b then STREAMER_VOLUME_PATH else VOLUME_PATH)"
    if ok: "fst (create rt options sent) = Inr s" for s
  proof -
    from ok have c: "create rt options sent = (Inr s, snd (create rt options sent))"
      by (simp add: prod_eq_iff)
    from ok obtain s1 where s1: "loadBaseUrl rt (new_Sonar rt options) = Inr s1"
      by (auto simp: create_def Let_def split: sum.splits)
    with ok assms
    have s: "loadServerAddress rt s1 sent = (Inr s, snd (loadServerAddress rt s1 sent))"
      by (cases "loadServerAddress rt s1 sent") (auto simp: create_def Let_def split: sum.splits)
    from loadBaseUrl_fields [OF s1] loadServerAddress_fields [OF s] assms
    have "priv_streamerMode s = b"
      by (simp add: new_Sonar_flag)
    with create_sync [OF c] show ?thesis
      by simp
  qed
  let ?rt = "test_runtime (Some coreProps_text)
               (engine ready_engine
                  (Resolved 200 (JString (if b then ''classic'' else ''stream''))) success)"
  have "create ?rt \<lparr>opt_appDataPath = None, opt_streamerMode = Some b\<rparr> []
          = (Inr (test_client b), [(GET, ''https://127.0.0.1:8080/subApps'')])"
    by (simp add: test_defs client_defs)
  moreover have "priv_streamerMode (test_client b) = b"
    by (simp add: test_client_def)
  moreover have "fst (isStreamerMode ?rt (test_client b) [(GET, ''https://127.0.0.1:8080/subApps'')])
                   = Inr (\<not> b)"
    by (simp add: test_defs client_defs)
  ultimately have disagree: "\<exists>rt' s' sent'.
              create rt' \<lparr>opt_appDataPath = None, opt_streamerMode = Some b\<rparr> [] = (Inr s', sent')
            \<and> priv_streamerMode s' = b
            \<and> fst (isStreamerMode rt' s' sent') = Inr (\<not> b)"
    by blast
  from requests adopted disagree show ?thesis
    by blast
qed

theorem C10_explicit_mode_is_adopted_witness:
  "create (test_runtime (Some coreProps_text)
             (engine ready_engine (Resolved 200 (JString ''classic'')) success))
          \<lparr>opt_appDataPath = None, opt_streamerMode = Some True\<rparr> []
     = (Inr (test_client True), [(GET, ''https://127.0.0.1:8080/subApps'')])
   \<and> priv_streamerMode (test_client True)
   \<and> volumePath (test_client True) = STREAMER_VOLUME_PATH"
proof -
  let ?rt = "test_runtime (Some coreProps_text)
             (engine ready_engine (Resolved 200 (JString ''classic'')) success)"
  let ?run = "create ?rt \<lparr>opt_appDataPath = None, opt_streamerMode = Some True\<rparr> []"
  have run: "?run = (Inr (test_client True), [(GET, ''https://127.0.0.1:8080/subApps'')])"
    by (simp add: test_defs client_defs)
  have "opt_streamerMode \<lparr>opt_appDataPath = None, opt_streamerMode = Some True\<rparr> = Some True"
    by simp
  from C10_explicit_mode_is_adopted [OF this, of ?rt "[]"] run
  have "priv_streamerMode (test_client True) \<and>
        volumePath (test_client True) = STREAMER_VOLUME_PATH"
    by simp
  with run show ?thesis by simp
qed

end
